theory Spec2Isabelle
  imports Main "HOL-Library.Word"
begin

unbundle bit_operations_syntax

section \<open>Strings of the Go runtime and library\<close>

text \<open>
  A Go string is a sequence of bytes; it is modelled as a \<open>string\<close>, a list of 8-bit
  characters. The control bytes and the space, which the program names, are written out.
\<close>

definition LF :: char where
  "LF = CHR 0x0A"

definition CR :: char where
  "CR = CHR 0x0D"

definition ESC :: char where
  "ESC = CHR 0x1B"

definition SP :: char where
  "SP = CHR '' ''"

text \<open>
  \<open>strings.Split(s, sep)\<close> for a one-byte separator, which is what both call sites
  pass (\<open>" "\<close> and \<open>"\n"\<close>): the fields between the occurrences of the separator, in
  order. The result always has at least one field; the last case of the inner
  \<open>case\<close> is only there to make the recursion total.
\<close>

fun Split :: "string \<Rightarrow> char \<Rightarrow> string list" where
  "Split [] sep = [[]]"
| "Split (c # cs) sep =
     (if c = sep then [] # Split cs sep
      else (case Split cs sep of
              w # ws \<Rightarrow> (c # w) # ws
            | [] \<Rightarrow> [[c]]))"

text \<open>\<open>strings.Join(elems, sep)\<close>.\<close>

fun Join :: "string list \<Rightarrow> string \<Rightarrow> string" where
  "Join [] sep = []"
| "Join [a] sep = a"
| "Join (a # b # rest) sep = a @ sep @ Join (b # rest) sep"

text \<open>\<open>strings.TrimRight(s, cutset)\<close>: drop every trailing byte that is in the cutset.\<close>

definition TrimRight :: "string \<Rightarrow> string \<Rightarrow> string" where
  "TrimRight s cutset = rev (dropWhile (\<lambda>c. c \<in> set cutset) (rev s))"

subsection \<open>UTF-8 sequences, as \<open>range\<close> over a string decodes them\<close>

text \<open>
  \<open>for _, char := range str\<close> decodes one UTF-8 sequence per iteration. A sequence
  that is not valid UTF-8 yields U+FFFD and advances by one byte. \<open>runeWidth\<close> gives
  the width of the valid sequence at the head of the string, or \<open>None\<close>.
\<close>

definition cont :: "nat \<Rightarrow> nat \<Rightarrow> char \<Rightarrow> bool" where
  "cont lo hi c = (lo \<le> of_char c \<and> of_char c \<le> hi)"

fun runeWidth :: "string \<Rightarrow> nat option" where
  "runeWidth [] = None"
| "runeWidth (b0 # rest) =
     (let x = (of_char b0 :: nat) in
      if x < 0x80 then Some 1
      else if x < 0xC2 then None
      else if x < 0xE0 then
        (case rest of
           b1 # _ \<Rightarrow> if cont 0x80 0xBF b1 then Some 2 else None
         | _ \<Rightarrow> None)
      else if x < 0xF0 then
        (case rest of
           b1 # b2 # _ \<Rightarrow>
             if cont (if x = 0xE0 then 0xA0 else 0x80) (if x = 0xED then 0x9F else 0xBF) b1
                \<and> cont 0x80 0xBF b2
             then Some 3 else None
         | _ \<Rightarrow> None)
      else if x < 0xF5 then
        (case rest of
           b1 # b2 # b3 # _ \<Rightarrow>
             if cont (if x = 0xF0 then 0x90 else 0x80) (if x = 0xF4 then 0x8F else 0xBF) b1
                \<and> cont 0x80 0xBF b2 \<and> cont 0x80 0xBF b3
             then Some 4 else None
         | _ \<Rightarrow> None)
      else None)"

text \<open>The UTF-8 encoding of U+FFFD, which is \<open>string(char)\<close> for an invalid sequence.\<close>

definition RuneError :: string where
  "RuneError = [CHR 0xEF, CHR 0xBF, CHR 0xBD]"

text \<open>
  One step of the decoder: \<open>string(char)\<close> for the sequence at the head of the string,
  and the number of bytes the iteration advances by.
\<close>

definition decodeRune :: "string \<Rightarrow> string \<times> nat" where
  "decodeRune s =
     (case runeWidth s of
        Some w \<Rightarrow> (take w s, w)
      | None \<Rightarrow> (RuneError, 1))"

lemma runeWidth_pos: "runeWidth s = Some w \<Longrightarrow> 0 < w"
  by (cases s) (auto simp: Let_def split: if_splits list.splits)

lemma decodeRune_advance: "0 < snd (decodeRune s)"
  by (auto simp: decodeRune_def dest: runeWidth_pos split: option.splits)

text \<open>
  \<open>rangeStr s\<close> lists \<open>string(char)\<close> for each iteration of
  \<open>for _, char := range s\<close>, in order.
\<close>

function rangeStr :: "string \<Rightarrow> string list" where
  "rangeStr s =
     (if s = [] then []
      else fst (decodeRune s) # rangeStr (drop (snd (decodeRune s)) s))"
  by pat_completeness auto
termination
  by (relation "measure length") (use decodeRune_advance in \<open>auto simp: Suc_le_eq\<close>)

declare rangeStr.simps [simp del]

text \<open>
  \<open>strings.ReplaceAll(s, old, new)\<close>: every non-overlapping occurrence of \<open>old\<close>,
  from the left, is replaced by \<open>new\<close>. An empty \<open>old\<close> matches before every UTF-8
  sequence and at the end.
\<close>

function rawRunes :: "string \<Rightarrow> string list" where
  "rawRunes s =
     (if s = [] then []
      else take (snd (decodeRune s)) s # rawRunes (drop (snd (decodeRune s)) s))"
  by pat_completeness auto
termination
  by (relation "measure length") (use decodeRune_advance in \<open>auto simp: Suc_le_eq\<close>)

declare rawRunes.simps [simp del]

function ReplaceAll :: "string \<Rightarrow> string \<Rightarrow> string \<Rightarrow> string" where
  "ReplaceAll s old new =
     (if old = [] then new @ concat (map (\<lambda>r. r @ new) (rawRunes s))
      else (case s of
              [] \<Rightarrow> []
            | c # cs \<Rightarrow>
                if take (length old) s = old
                then new @ ReplaceAll (drop (length old) s) old new
                else c # ReplaceAll cs old new))"
  by pat_completeness auto
termination
  by (relation "measure (\<lambda>(s, old, new). length s)") auto

declare ReplaceAll.simps [simp del]

text \<open>
  \<open>fmt\<close>'s \<open>%v\<close> of an integer: its decimal digits, with a minus sign when negative.
\<close>

fun showNat :: "nat \<Rightarrow> string" where
  "showNat n =
     (if n < 10 then [char_of (48 + n)]
      else showNat (n div 10) @ [char_of (48 + n mod 10)])"

declare showNat.simps [simp del]

definition showInt :: "int \<Rightarrow> string" where
  "showInt i = (if i < 0 then CHR ''-'' # showNat (nat (- i)) else showNat (nat i))"

section \<open>Effects and the environment\<close>

text \<open>
  A Go \<open>error\<close> is modelled by the message \<open>%v\<close> prints for it; \<open>None\<close> is \<open>nil\<close>.
  A panic is an outcome of its own.
\<close>

type_synonym error = string

datatype 'a outcome = Return 'a | Panic string

text \<open>
  The destinations of output: \<open>os.Stdout\<close>, \<open>os.Stderr\<close>, or any other \<open>io.Writer\<close>
  a caller passes.
\<close>

datatype writer = Stdout | Stderr | Writer nat

text \<open>
  What the program does to the outside world, in the order it does it: a write of
  bytes to a writer, a \<open>time.Sleep\<close> of a \<open>time.Duration\<close> (64-bit nanoseconds), a
  process started by \<open>exec.Command(name, args...)\<close> with \<open>cmd.Stdout\<close> set and run to
  completion by \<open>cmd.Run()\<close>, and cobra's \<open>cmd.Help()\<close>.
\<close>

datatype event =
    Write writer string
  | Sleep "64 word"
  | Exec string "string list" writer
  | Help

text \<open>
  A stream to read from: the bytes it delivers, then end of file (\<open>None\<close>) or a read
  error.
\<close>

record reader =
  data :: string
  readErr :: "error option"

text \<open>
  The environment of a run. \<open>cmdRun\<close> is the result of \<open>cmd.Run()\<close>: it may
  depend on everything that happened before, so the same command line can fail
  once and succeed later. \<open>stdinStat\<close> is \<open>os.Stdin.Stat()\<close>: whether the mode has
  \<open>os.ModeCharDevice\<close>, or \<open>None\<close> when the call fails and returns a nil \<open>FileInfo\<close>.
\<close>

record env =
  goos :: string
  openFile :: "string \<Rightarrow> error + reader"
  stdin :: reader
  stdinStat :: "bool option"
  cmdRun :: "event list \<Rightarrow> string \<Rightarrow> string list \<Rightarrow> error option"

text \<open>\<open>time.Millisecond\<close>, in nanoseconds.\<close>

definition Millisecond :: "64 word" where
  "Millisecond = 1000000"

section \<open>Package cli\<close>

type_synonym ShellOption = int

definition PS :: ShellOption where
  "PS = 0"

definition Cmd :: ShellOption where
  "Cmd = 1"

definition Bash :: ShellOption where
  "Bash = 2"

record Prompt =
  Username :: string
  Hostname :: string
  Path :: string
  Shell :: ShellOption

text \<open>
  \<open>cmd := exec.Command(name, args...); cmd.Stdout = out; err := cmd.Run()\<close>, the
  three lines \<open>ClearScreen\<close> and \<open>ExecuteCommand\<close> share.
\<close>

definition runCommand ::
  "env \<Rightarrow> string \<Rightarrow> string list \<Rightarrow> writer \<Rightarrow> event list \<Rightarrow> error option \<times> event list" where
  "runCommand env name args out h = (cmdRun env h name args, h @ [Exec name args out])"

text \<open>
  The \<open>cmdList\<close> of \<open>ClearScreen\<close>, chosen by \<open>runtime.GOOS\<close>, as the pair of
  \<open>cmdList[0]\<close> and \<open>cmdList[1:]\<close>.
\<close>

definition clearCommand :: "env \<Rightarrow> string \<times> string list" where
  "clearCommand env =
     (if goos env = ''windows'' then (''cmd'', [''/c'', ''cls''])
      else (''sh'', [''-c'', ''clear'']))"

definition ClearScreen :: "env \<Rightarrow> event list \<Rightarrow> error option \<times> event list" where
  "ClearScreen env h =
     (let (name, args) = clearCommand env;
          (err, h1) = runCommand env name args Stdout h
      in case err of Some e \<Rightarrow> (Some e, h1) | None \<Rightarrow> (None, h1))"

definition promptText :: "Prompt \<Rightarrow> string" where
  "promptText p =
     (if Shell p = PS then ''PS '' @ Path p @ ''> ''
      else if Shell p = Cmd then Path p @ ''> ''
      else if Shell p = Bash then
        (let green = ESC # ''[38;5;82m'';
             blue = ESC # ''[38;5;32m'';
             white = ESC # ''[0m''
         in green @ Username p @ ''@'' @ Hostname p @ white @ '':'' @ blue @ Path p
              @ white @ ''$ '')
      else ''Unknown shell: '' @ showInt (Shell p) @ [LF])"

definition PrintPrompt :: "Prompt \<Rightarrow> writer \<Rightarrow> event list \<Rightarrow> event list" where
  "PrintPrompt p out h = h @ [Write out (promptText p)]"

definition ExecuteCommand ::
  "env \<Rightarrow> string \<Rightarrow> writer \<Rightarrow> event list \<Rightarrow> error option outcome \<times> event list" where
  "ExecuteCommand env command out h =
     (let cmdList = Split command SP
      in case cmdList of
           [] \<Rightarrow> (Panic ''index out of range [0] with length 0'', h)
         | name # args \<Rightarrow>
             (let (err, h1) = runCommand env name args out h
              in case err of Some e \<Rightarrow> (Return (Some e), h1) | None \<Rightarrow> (Return None, h1)))"

text \<open>The body of the \<open>range\<close> loop of \<open>TypeAsHuman\<close>, over the decoded characters.\<close>

fun typeLoop :: "string list \<Rightarrow> writer \<Rightarrow> 64 word \<Rightarrow> event list \<Rightarrow> event list" where
  "typeLoop [] out delayMs h = h"
| "typeLoop (char # rest) out delayMs h =
     (let h1 = (if char = [SP] then h @ [Write Stdout (ESC # ''[0m'')] else h);
          h2 = h1 @ [Write out char];
          delay = delayMs * Millisecond;
          h3 = h2 @ [Sleep delay]
      in typeLoop rest out delayMs h3)"

definition TypeAsHuman ::
  "string \<Rightarrow> writer \<Rightarrow> 64 word \<Rightarrow> event list \<Rightarrow> error option \<times> event list" where
  "TypeAsHuman str out delayMs h =
     (if delayMs = 0 then (None, h @ [Write out str])
      else
        (let h1 = h @ [Write Stdout (ESC # ''[38;5;229m'')];
             h2 = typeLoop (rangeStr str) out delayMs h1;
             h3 = h2 @ [Write Stdout (ESC # ''[0m'')]
         in (None, h3)))"

text \<open>\<open>ProcessStdin\<close>: \<open>io.ReadAll(os.Stdin)\<close>.\<close>

definition ProcessStdin :: "env \<Rightarrow> error + string" where
  "ProcessStdin env =
     (case readErr (stdin env) of
        Some e \<Rightarrow> Inl e
      | None \<Rightarrow> Inr (data (stdin env)))"

subsection \<open>Reading lines with \<open>bufio.Scanner\<close>\<close>

text \<open>
  A \<open>bufio.Scanner\<close> with its default split function \<open>ScanLines\<close> yields the text
  between newlines, each without one trailing carriage return; a last line without
  a newline is yielded when it is not empty. Its buffer holds at most
  \<open>MaxScanTokenSize\<close> bytes: a line that does not fit stops the scan with
  \<open>ErrTooLong\<close>, and a read error stops it with that error.
\<close>

definition MaxScanTokenSize :: nat where
  "MaxScanTokenSize = 64 * 1024"

definition ErrTooLong :: error where
  "ErrTooLong = ''bufio.Scanner: token too long''"

definition dropCR :: "string \<Rightarrow> string" where
  "dropCR s = (if s \<noteq> [] \<and> last s = CR then butlast s else s)"

definition scanTokens :: "string \<Rightarrow> string list" where
  "scanTokens d =
     (let segs = Split d LF
      in map dropCR (if last segs = [] then butlast segs else segs))"

definition scanAll :: "reader \<Rightarrow> error + string list" where
  "scanAll r =
     (if list_ex (\<lambda>seg. MaxScanTokenSize \<le> length seg) (Split (data r) LF) then Inl ErrTooLong
      else (case readErr r of
              Some e \<Rightarrow> Inl e
            | None \<Rightarrow> Inr (scanTokens (data r))))"

text \<open>
  What \<open>ProcessInteractiveInput\<close> and \<open>ProcessFile\<close> share word for word: the loop
  \<open>for scanner.Scan() { input += fmt.Sprintf("%s\n", scanner.Text()) }\<close>, then
  \<open>strings.TrimRight(input, "\n")\<close>, then the check of \<open>scanner.Err()\<close>.
\<close>

definition collectLines :: "string list \<Rightarrow> string" where
  "collectLines toks = TrimRight (foldl (\<lambda>input l. input @ l @ [LF]) [] toks) [LF]"

definition scanInput :: "reader \<Rightarrow> error + string" where
  "scanInput r =
     (case scanAll r of
        Inl e \<Rightarrow> Inl e
      | Inr toks \<Rightarrow> Inr (collectLines toks))"

definition ProcessInteractiveInput :: "env \<Rightarrow> event list \<Rightarrow> (error + string) \<times> event list" where
  "ProcessInteractiveInput env h =
     (let eofKeys = (if goos env = ''windows'' then ''CTRL+Z'' else ''CTRL+D'');
          h1 = h @ [Write Stderr
                 (''Please enter the input text. Press '' @ eofKeys @ '' to finish.'' @ [LF])]
      in (scanInput (stdin env), h1))"

definition ProcessFile :: "env \<Rightarrow> string \<Rightarrow> error + string" where
  "ProcessFile env filename =
     (case openFile env filename of
        Inl e \<Rightarrow> Inl e
      | Inr file \<Rightarrow> scanInput file)"

section \<open>The root command\<close>

text \<open>The values viper holds for the flags, read with \<open>GetString\<close>, \<open>GetInt\<close>, \<open>GetBool\<close>.\<close>

record config =
  input_file :: string
  shell :: string
  prompt_path :: string
  prompt_username :: string
  prompt_hostname :: string
  pre_delay :: "64 word"
  char_delay :: "64 word"
  post_delay :: "64 word"
  no_cls :: bool

text \<open>The first part of \<open>RunE\<close>: where the input text comes from.\<close>

datatype acquired = Input string | Failed error | ShowHelp | NilStat

definition acquireInput :: "env \<Rightarrow> config \<Rightarrow> string list \<Rightarrow> acquired" where
  "acquireInput env cfg args =
     (if input_file cfg \<noteq> [] then
        (case ProcessFile env (input_file cfg) of
           Inl e \<Rightarrow> Failed e
         | Inr input \<Rightarrow> Input input)
      else (case stdinStat env of
              None \<Rightarrow> NilStat
            | Some charDevice \<Rightarrow>
                if \<not> charDevice then
                  (case ProcessStdin env of
                     Inl e \<Rightarrow> Failed e
                   | Inr input \<Rightarrow> Input input)
                else if args = [] then ShowHelp
                else Input (Join args '' '')))"

definition shellOptionOf :: "string \<Rightarrow> ShellOption" where
  "shellOptionOf s = (if s = ''cmd'' then Cmd else if s = ''bash'' then Bash else PS)"

definition newPrompt :: "config \<Rightarrow> Prompt" where
  "newPrompt cfg =
     (let shellOption = shellOptionOf (shell cfg);
          path = prompt_path cfg;
          path = (if path = [] then
                    (if shellOption = Cmd then ''C:'' @ [CHR 0x5C]
                     else if shellOption = Bash then ''~''
                     else ''C:'' @ [CHR 0x5C])
                  else path)
      in \<lparr>Username = prompt_username cfg, Hostname = prompt_hostname cfg,
          Path = path, Shell = shellOption\<rparr>)"

text \<open>
  The local variables of \<open>RunE\<close> that live across the playback loop, and the trace
  of effects so far.
\<close>

record frame =
  promptDesc :: Prompt
  commandList :: "string list"
  typeDelay :: "64 word"
  trace :: "event list"

text \<open>\<open>if err != nil { fmt.Printf("Error: %v\n", err) }\<close> and \<open>fmt.Println(err)\<close>.\<close>

definition printError :: "error option \<Rightarrow> event list \<Rightarrow> event list" where
  "printError err h =
     (case err of Some e \<Rightarrow> h @ [Write Stdout (''Error: '' @ e @ [LF])] | None \<Rightarrow> h)"

definition printlnError :: "error option \<Rightarrow> event list \<Rightarrow> event list" where
  "printlnError err h =
     (case err of Some e \<Rightarrow> h @ [Write Stdout (e @ [LF])] | None \<Rightarrow> h)"

text \<open>One pass through the body of \<open>for _, command := range commands\<close>.\<close>

definition iteration :: "env \<Rightarrow> config \<Rightarrow> string \<Rightarrow> frame \<Rightarrow> unit outcome \<times> frame" where
  "iteration env cfg command st =
     (let h1 = (if 0 <s typeDelay st then trace st @ [Sleep (typeDelay st * Millisecond)]
                else trace st);
          charDelay = char_delay cfg;
          (err, h2) = TypeAsHuman command Stdout charDelay h1;
          h3 = printError err h2;
          h4 = h3 @ [Write Stdout [LF]]
      in case ExecuteCommand env command Stdout h4 of
           (Panic m, h5) \<Rightarrow> (Panic m, st\<lparr>trace := h5\<rparr>)
         | (Return err, h5) \<Rightarrow>
             (let h6 = printError err h5;
                  h7 = PrintPrompt (promptDesc st) Stdout h6;
                  delay = post_delay cfg;
                  h8 = (if 0 <s delay then h7 @ [Sleep (delay * Millisecond)] else h7)
              in case commandList st of
                   [] \<Rightarrow> (Panic ''index out of range [-1]'', st\<lparr>trace := h8\<rparr>)
                 | _ # _ \<Rightarrow>
                     (let lastLine = last (commandList st)
                      in if \<not> no_cls cfg \<and> command \<noteq> lastLine then
                           (let (err, h9) = ClearScreen env h8;
                                h10 = printlnError err h9
                            in (Return (), st\<lparr>trace := PrintPrompt (promptDesc st) Stdout h10\<rparr>))
                         else (Return (), st\<lparr>trace := h8\<rparr>))))"

fun playback :: "env \<Rightarrow> config \<Rightarrow> string list \<Rightarrow> frame \<Rightarrow> unit outcome \<times> frame" where
  "playback env cfg [] st = (Return (), st)"
| "playback env cfg (command # rest) st =
     (case iteration env cfg command st of
        (Panic m, st') \<Rightarrow> (Panic m, st')
      | (Return u, st') \<Rightarrow> playback env cfg rest st')"

text \<open>\<open>RunE\<close> from the acquired input on: lines 87 to 176.\<close>

definition runInput ::
  "env \<Rightarrow> config \<Rightarrow> string \<Rightarrow> event list \<Rightarrow> error option outcome \<times> frame" where
  "runInput env cfg input h =
     (let (err, h1) = ClearScreen env h;
          h2 = printlnError err h1;
          p = newPrompt cfg;
          input = ReplaceAll input [CR, LF] [LF];
          commands = Split input LF;
          h3 = PrintPrompt p Stdout h2;
          st = \<lparr>promptDesc = p, commandList = commands, typeDelay = pre_delay cfg, trace = h3\<rparr>
      in case playback env cfg commands st of
           (Panic m, st') \<Rightarrow> (Panic m, st')
         | (Return u, st') \<Rightarrow> (Return None, st'))"

definition RunE ::
  "env \<Rightarrow> config \<Rightarrow> string list \<Rightarrow> event list \<Rightarrow> error option outcome \<times> event list" where
  "RunE env cfg args h =
     (case acquireInput env cfg args of
        Failed e \<Rightarrow> (Return (Some e), h)
      | NilStat \<Rightarrow> (Panic ''invalid memory address or nil pointer dereference'', h)
      | ShowHelp \<Rightarrow> (Return None, h @ [Help])
      | Input input \<Rightarrow>
          (let (r, st) = runInput env cfg input h in (r, trace st)))"

section \<open>Example runs\<close>

text \<open>
  Concrete environments and flags for the examples below: a Linux host where every
  process succeeds, one where every process fails, one that has a file, one whose
  standard input is a pipe, and the flags \<open>--shell cmd --path D: --pre-delay 0 --char-delay 0 --post-delay 0\<close> with
  screen clearing on, or off in \<open>quietConfig\<close>.
\<close>

definition demoEnv :: env where
  "demoEnv = \<lparr>goos = ''linux'', openFile = (\<lambda>f. Inl ''open: no such file or directory''),
     stdin = \<lparr>data = [], readErr = None\<rparr>, stdinStat = Some True,
     cmdRun = (\<lambda>h name args. None)\<rparr>"

definition failingEnv :: env where
  "failingEnv = \<lparr>goos = ''linux'', openFile = (\<lambda>f. Inl ''open: no such file or directory''),
     stdin = \<lparr>data = [], readErr = None\<rparr>, stdinStat = Some True,
     cmdRun = (\<lambda>h name args. Some ''exit status 1'')\<rparr>"

definition fileEnv :: env where
  "fileEnv = \<lparr>goos = ''linux'',
     openFile = (\<lambda>f. Inr \<lparr>data = [CHR ''l'', CHR ''s'', CR, LF, LF, CHR ''p'', CHR ''w'', CHR ''d'', LF, LF],
                          readErr = None\<rparr>),
     stdin = \<lparr>data = [CHR ''l'', CHR ''s'', CR, LF, LF, CHR ''p'', CHR ''w'', CHR ''d'', LF, LF],
              readErr = None\<rparr>,
     stdinStat = Some True,
     cmdRun = (\<lambda>h name args. None)\<rparr>"

definition demoConfig :: config where
  "demoConfig = \<lparr>input_file = [], shell = ''cmd'', prompt_path = ''D:'', prompt_username = ''u'',
     prompt_hostname = ''h'', pre_delay = 0, char_delay = 0, post_delay = 0, no_cls = False\<rparr>"

definition pipeEnv :: env where
  "pipeEnv = \<lparr>goos = ''linux'', openFile = (\<lambda>f. Inl ''open: no such file or directory''),
     stdin = \<lparr>data = [CHR ''l'', CHR ''s'', CHR '' '', CHR ''-'', CHR ''l'', CR, LF,
                      CHR ''p'', CHR ''w'', CHR ''d'', LF],
              readErr = None\<rparr>,
     stdinStat = Some False,
     cmdRun = (\<lambda>h name args. None)\<rparr>"

definition quietConfig :: config where
  "quietConfig = \<lparr>input_file = [], shell = ''cmd'', prompt_path = ''D:'', prompt_username = ''u'',
     prompt_hostname = ''h'', pre_delay = 0, char_delay = 0, post_delay = 0, no_cls = True\<rparr>"

definition demoFrame :: frame where
  "demoFrame = \<lparr>promptDesc = newPrompt demoConfig, commandList = [''ls'', ''pwd''],
     typeDelay = 0, trace = []\<rparr>"

section \<open>Observations on traces\<close>

text \<open>The processes a trace started, in order: the name and arguments of each.\<close>

fun processes :: "event list \<Rightarrow> (string \<times> string list) list" where
  "processes [] = []"
| "processes (Exec name args out # h) = (name, args) # processes h"
| "processes (e # h) = processes h"

section \<open>Facts about the library functions\<close>

lemma Split_not_Nil: "Split s c \<noteq> []"
  by (induction s) (auto split: list.splits)

lemma Join_Cons: "xs \<noteq> [] \<Longrightarrow> Join (x # xs) sep = x @ sep @ Join xs sep"
  by (cases xs) auto

lemma Join_push: "Join ((x # a) # as) sep = x # Join (a # as) sep"
  by (cases as) auto

lemma Join_Split: "Join (Split s c) [c] = s"
proof (induction s)
  case Nil
  show ?case by simp
next
  case (Cons x s)
  obtain a as where split: "Split s c = a # as"
    using Split_not_Nil [of s c] by (cases "Split s c") auto
  show ?case
  proof (cases "x = c")
    case True
    with Cons split show ?thesis by (simp add: Join_Cons)
  next
    case False
    with Cons split show ?thesis by (simp add: Join_push)
  qed
qed

lemma Split_no_sep: "f \<in> set (Split s c) \<Longrightarrow> c \<notin> set f"
  by (induction s arbitrary: f) (auto split: if_splits list.splits)

lemma length_Split: "length (Split s c) = Suc (count_list s c)"
  by (induction s) (auto split: list.splits)

lemma rangeStr_Nil: "rangeStr [] = []"
  by (simp add: rangeStr.simps)

lemma rangeStr_ascii_Cons: "(of_char c :: nat) < 0x80 \<Longrightarrow> rangeStr (c # s) = [c] # rangeStr s"
  by (subst rangeStr.simps) (simp add: decodeRune_def)

lemma rangeStr_valid: "RuneError \<notin> set (rangeStr s) \<Longrightarrow> concat (rangeStr s) = s"
proof (induction s rule: rangeStr.induct)
  case (1 s)
  show ?case
  proof (cases "s = []")
    case True
    then show ?thesis by (simp add: rangeStr.simps)
  next
    case False
    from "1.prems" False have ne: "fst (decodeRune s) \<noteq> RuneError"
      and rest: "RuneError \<notin> set (rangeStr (drop (snd (decodeRune s)) s))"
      by (subst (asm) rangeStr.simps, auto)+
    from ne have "fst (decodeRune s) = take (snd (decodeRune s)) s"
      by (auto simp: decodeRune_def split: option.splits)
    moreover from "1.IH" [OF False rest]
    have "concat (rangeStr (drop (snd (decodeRune s)) s)) = drop (snd (decodeRune s)) s" .
    ultimately show ?thesis using False
      by (subst rangeStr.simps) simp
  qed
qed

lemma rangeStr_ascii:
  "list_all (\<lambda>c. (of_char c :: nat) < 0x80) s \<Longrightarrow> rangeStr s = map (\<lambda>c. [c]) s"
  by (induction s) (simp_all add: rangeStr_Nil rangeStr_ascii_Cons)

lemma ReplaceAll_CRLF_Nil: "ReplaceAll [] [CR, LF] [LF] = []"
  by (simp add: ReplaceAll.simps)

lemma ReplaceAll_CRLF_Cons:
  "ReplaceAll (c # cs) [CR, LF] [LF] =
     (if c = CR \<and> cs \<noteq> [] \<and> hd cs = LF then LF # ReplaceAll (tl cs) [CR, LF] [LF]
      else c # ReplaceAll cs [CR, LF] [LF])"
  by (subst ReplaceAll.simps) (cases cs; auto)

lemma ReplaceAll_CRLF_step:
  "ReplaceAll (c # cs) [CR, LF] [LF] =
     (if c = CR \<and> take 1 cs = [LF] then LF # ReplaceAll (drop 1 cs) [CR, LF] [LF]
      else c # ReplaceAll cs [CR, LF] [LF])"
  by (cases cs) (simp_all add: ReplaceAll_CRLF_Cons)

lemma ReplaceAll_CRLF_last:
  "s \<noteq> [] \<Longrightarrow> last s \<noteq> LF \<Longrightarrow>
   ReplaceAll s [CR, LF] [LF] \<noteq> [] \<and> last (ReplaceAll s [CR, LF] [LF]) = last s"
proof (induction s rule: length_induct)
  case (1 s)
  from "1.prems" obtain c cs where s: "s = c # cs" by (cases s) auto
  show ?case
  proof (cases "c = CR \<and> cs \<noteq> [] \<and> hd cs = LF")
    case True
    then obtain rest where cs: "cs = LF # rest" by (cases cs) auto
    with "1.prems" s have rest: "rest \<noteq> []" "last rest \<noteq> LF" "last s = last rest"
      by (auto split: if_splits)
    from "1.IH" s cs rest
    have "ReplaceAll rest [CR, LF] [LF] \<noteq> [] \<and> last (ReplaceAll rest [CR, LF] [LF]) = last rest"
      by simp
    with True s cs rest show ?thesis
      by (simp add: ReplaceAll_CRLF_Cons)
  next
    case False
    show ?thesis
    proof (cases "cs = []")
      case True
      with False s show ?thesis by (simp add: ReplaceAll_CRLF_Cons ReplaceAll_CRLF_Nil)
    next
      case nonempty: False
      with "1.prems" s have "last cs \<noteq> LF" "last s = last cs" by auto
      with "1.IH" s nonempty
      have "ReplaceAll cs [CR, LF] [LF] \<noteq> [] \<and> last (ReplaceAll cs [CR, LF] [LF]) = last cs"
        by simp
      moreover have "ReplaceAll (c # cs) [CR, LF] [LF] = c # ReplaceAll cs [CR, LF] [LF]"
        by (subst ReplaceAll_CRLF_Cons) (rule if_not_P [OF False])
      ultimately show ?thesis using s \<open>last s = last cs\<close> by simp
    qed
  qed
qed

lemma last_Split: "(last (Split t c) = []) = (t = [] \<or> last t = c)"
proof (induction t)
  case Nil
  show ?case by simp
next
  case (Cons x t)
  obtain w ws where split: "Split t c = w # ws"
    using Split_not_Nil [of t c] by (cases "Split t c") auto
  show ?case
  proof (cases "x = c")
    case True
    with Cons split show ?thesis by auto
  next
    case False
    show ?thesis
    proof (cases "ws = []")
      case True
      with split have "count_list t c = 0"
        using length_Split [of t c] by simp
      then have "c \<notin> set t" by (simp add: count_list_0_iff)
      then have "t = [] \<or> last t \<noteq> c" by (cases t) auto
      with False True split show ?thesis by auto
    next
      case nonempty: False
      with False split Cons show ?thesis by auto
    qed
  qed
qed

lemma TrimRight_snoc: "TrimRight (s @ [c]) [c] = TrimRight s [c]"
  by (simp add: TrimRight_def)

lemma TrimRight_last: "TrimRight s [c] = [] \<or> last (TrimRight s [c]) \<noteq> c"
proof (cases "dropWhile (\<lambda>x. x \<in> set [c]) (rev s)")
  case Nil
  then show ?thesis by (simp add: TrimRight_def)
next
  case (Cons y ys)
  then have "\<not> y \<in> set [c]"
    using hd_dropWhile [of "\<lambda>x. x \<in> set [c]" "rev s"] by auto
  with Cons show ?thesis by (simp add: TrimRight_def)
qed

lemma foldl_lines:
  "foldl (\<lambda>input l. input @ l @ [LF]) acc toks = acc @ concat (map (\<lambda>l. l @ [LF]) toks)"
  by (induction toks arbitrary: acc) simp_all

lemma concat_lines: "toks \<noteq> [] \<Longrightarrow> concat (map (\<lambda>l. l @ [LF]) toks) = Join toks [LF] @ [LF]"
proof (induction toks)
  case Nil
  then show ?case by simp
next
  case (Cons t toks)
  then show ?case by (cases "toks = []") (simp_all add: Join_Cons)
qed

lemma collectLines_Join: "collectLines toks = TrimRight (Join toks [LF]) [LF]"
proof (cases "toks = []")
  case True
  then show ?thesis by (simp add: collectLines_def)
next
  case False
  then show ?thesis
    by (simp add: collectLines_def foldl_lines concat_lines TrimRight_snoc)
qed

lemma collectLines_snoc_empty: "collectLines (toks @ [[]]) = collectLines toks"
  by (simp add: collectLines_def foldl_lines TrimRight_snoc)

lemma Split_snoc_sep: "Split (d @ [c]) c = Split d c @ [[]]"
  by (induction d) (auto simp: Split_not_Nil split: list.splits)

lemma scanInput_snoc_LF: "scanInput (r\<lparr>data := data r @ [LF]\<rparr>) = scanInput r"
proof -
  have "collectLines (scanTokens (data r @ [LF])) = collectLines (scanTokens (data r))"
  proof (cases "last (Split (data r) LF) = []")
    case True
    then obtain bs where "Split (data r) LF = bs @ [[]]"
      using Split_not_Nil [of "data r" LF] by (metis append_butlast_last_id)
    then show ?thesis
      by (simp add: scanTokens_def Let_def Split_snoc_sep collectLines_snoc_empty dropCR_def
          butlast_append)
  next
    case False
    then show ?thesis
      by (simp add: scanTokens_def Let_def Split_snoc_sep)
  qed
  then show ?thesis
    by (cases "readErr r") (simp_all add: scanInput_def scanAll_def Split_snoc_sep MaxScanTokenSize_def)
qed

lemma scanInput_trailing_newlines:
  "scanInput (r\<lparr>data := data r @ replicate k LF\<rparr>) = scanInput r"
proof (induction k)
  case 0
  show ?case by simp
next
  case (Suc k)
  have "scanInput (r\<lparr>data := data r @ replicate (Suc k) LF\<rparr>)
          = scanInput ((r\<lparr>data := data r @ replicate k LF\<rparr>)\<lparr>data := data (r\<lparr>data := data r @ replicate k LF\<rparr>) @ [LF]\<rparr>)"
    by (simp add: replicate_append_same)
  also have "\<dots> = scanInput (r\<lparr>data := data r @ replicate k LF\<rparr>)"
    by (rule scanInput_snoc_LF)
  finally show ?case using Suc by simp
qed

lemma scanInput_Inr:
  "scanInput r = Inr s \<Longrightarrow>
     s = TrimRight (Join (scanTokens (data r)) [LF]) [LF]
     \<and> (s = [] \<or> last s \<noteq> LF)
     \<and> (s = [] \<or> last (Split (ReplaceAll s [CR, LF] [LF]) LF) \<noteq> [])"
proof -
  assume "scanInput r = Inr s"
  then have s: "s = collectLines (scanTokens (data r))"
    by (auto simp: scanInput_def scanAll_def split: sum.splits if_splits option.splits)
  then have j: "s = TrimRight (Join (scanTokens (data r)) [LF]) [LF]"
    by (simp add: collectLines_Join)
  then have l: "s = [] \<or> last s \<noteq> LF"
    using TrimRight_last [of "Join (scanTokens (data r)) [LF]" LF] by simp
  have "s = [] \<or> last (Split (ReplaceAll s [CR, LF] [LF]) LF) \<noteq> []"
  proof (cases "s = []")
    case True
    then show ?thesis by simp
  next
    case False
    with l have "ReplaceAll s [CR, LF] [LF] \<noteq> [] \<and> last (ReplaceAll s [CR, LF] [LF]) \<noteq> LF"
      using ReplaceAll_CRLF_last [of s] by auto
    then show ?thesis by (simp add: last_Split)
  qed
  with j l show ?thesis by simp
qed

section \<open>Facts about package cli\<close>

lemma ExecuteCommand_eq:
  "ExecuteCommand env command out h =
     (Return (cmdRun env h (hd (Split command SP)) (tl (Split command SP))),
      h @ [Exec (hd (Split command SP)) (tl (Split command SP)) out])"
  using Split_not_Nil [of command SP]
  by (cases "Split command SP") (auto simp: ExecuteCommand_def runCommand_def split: option.splits)

lemma ClearScreen_eq:
  "ClearScreen env h =
     (cmdRun env h (fst (clearCommand env)) (snd (clearCommand env)),
      h @ [Exec (fst (clearCommand env)) (snd (clearCommand env)) Stdout])"
  by (auto simp: ClearScreen_def runCommand_def split: option.splits prod.splits)

lemma TypeAsHuman_nil: "fst (TypeAsHuman str out delayMs h) = None"
  by (simp add: TypeAsHuman_def Let_def)

lemma typeLoop_eq:
  "typeLoop chars out delayMs h =
     h @ concat (map (\<lambda>char. (if char = [SP] then [Write Stdout (ESC # ''[0m'')] else [])
                              @ [Write out char, Sleep (delayMs * Millisecond)]) chars)"
  by (induction chars arbitrary: h) (simp_all add: Let_def)

lemma TypeAsHuman_typed:
  "delayMs \<noteq> 0 \<Longrightarrow>
   TypeAsHuman str out delayMs h =
     (None, h @ [Write Stdout (ESC # ''[38;5;229m'')]
              @ concat (map (\<lambda>char. (if char = [SP] then [Write Stdout (ESC # ''[0m'')] else [])
                                      @ [Write out char, Sleep (delayMs * Millisecond)])
                          (rangeStr str))
              @ [Write Stdout (ESC # ''[0m'')])"
  by (simp add: TypeAsHuman_def Let_def typeLoop_eq)

lemma printError_None: "printError None h = h"
  by (simp add: printError_def)

lemma processes_append: "processes (h @ h') = processes h @ processes h'"
  by (induction h rule: processes.induct) auto

lemma processes_typeLoop: "processes (typeLoop chars out delayMs h) = processes h"
  by (induction chars arbitrary: h) (simp_all add: Let_def processes_append)

lemma processes_TypeAsHuman: "processes (snd (TypeAsHuman str out delayMs h)) = processes h"
  by (simp add: TypeAsHuman_def Let_def processes_append processes_typeLoop)

lemma processes_printError: "processes (printError err h) = processes h"
  by (cases err) (simp_all add: printError_def processes_append)

lemma processes_printlnError: "processes (printlnError err h) = processes h"
  by (cases err) (simp_all add: printlnError_def processes_append)

lemma processes_PrintPrompt: "processes (PrintPrompt p out h) = processes h"
  by (simp add: PrintPrompt_def processes_append)

section \<open>Facts about the playback loop\<close>

lemma iteration_eq:
  "iteration env cfg command st =
     (let h1 = (if 0 <s typeDelay st then trace st @ [Sleep (typeDelay st * Millisecond)]
                else trace st);
          h4 = snd (TypeAsHuman command Stdout (char_delay cfg) h1) @ [Write Stdout [LF]];
          name = hd (Split command SP);
          args = tl (Split command SP);
          h6 = printError (cmdRun env h4 name args) (h4 @ [Exec name args Stdout]);
          h7 = PrintPrompt (promptDesc st) Stdout h6;
          h8 = (if 0 <s post_delay cfg then h7 @ [Sleep (post_delay cfg * Millisecond)] else h7)
      in if commandList st = [] then (Panic ''index out of range [-1]'', st\<lparr>trace := h8\<rparr>)
         else if \<not> no_cls cfg \<and> command \<noteq> last (commandList st) then
           (Return (), st\<lparr>trace := PrintPrompt (promptDesc st) Stdout
              (printlnError (fst (ClearScreen env h8)) (snd (ClearScreen env h8)))\<rparr>)
         else (Return (), st\<lparr>trace := h8\<rparr>))"
  by (cases "commandList st")
     (simp_all add: iteration_def Let_def case_prod_beta ExecuteCommand_eq TypeAsHuman_nil
        printError_None cong: if_cong split del: if_split)

lemma commandList_iteration: "commandList (snd (iteration env cfg command st)) = commandList st"
  by (simp add: iteration_eq Let_def)

lemma promptDesc_iteration: "promptDesc (snd (iteration env cfg command st)) = promptDesc st"
  by (simp add: iteration_eq Let_def)

lemma iteration_returns: "commandList st \<noteq> [] \<Longrightarrow> fst (iteration env cfg command st) = Return ()"
  by (simp add: iteration_eq Let_def)

lemma playback_foldl:
  "commandList st \<noteq> [] \<Longrightarrow>
   playback env cfg cs st = (Return (), foldl (\<lambda>st c. snd (iteration env cfg c st)) st cs)"
proof (induction cs arbitrary: st)
  case Nil
  show ?case by simp
next
  case (Cons c cs)
  obtain st' where it: "iteration env cfg c st = (Return (), st')"
    using iteration_returns [OF Cons.prems, of env cfg c]
    by (cases "iteration env cfg c st") auto
  then have "commandList st' \<noteq> []"
    using commandList_iteration [of env cfg c st] Cons.prems by simp
  from Cons.IH [OF this] it show ?case by simp
qed

lemma processes_iteration:
  "processes (trace (snd (iteration env cfg command st))) =
     processes (trace st) @ (hd (Split command SP), tl (Split command SP))
       # (if commandList st \<noteq> [] \<and> \<not> no_cls cfg \<and> command \<noteq> last (commandList st)
          then [clearCommand env] else [])"
  by (simp add: iteration_eq Let_def processes_append processes_TypeAsHuman
      processes_printError processes_printlnError processes_PrintPrompt ClearScreen_eq)

lemma printError_alt:
  "printError err h = h @ (case err of Some e \<Rightarrow> [Write Stdout (''Error: '' @ e @ [LF])] | None \<Rightarrow> [])"
  by (cases err) (simp_all add: printError_def)

lemma printlnError_alt:
  "printlnError err h = h @ (case err of Some e \<Rightarrow> [Write Stdout (e @ [LF])] | None \<Rightarrow> [])"
  by (cases err) (simp_all add: printlnError_def)

lemma iteration_trace:
  "trace (snd (iteration env cfg command st)) =
     (let h1 = (if 0 <s typeDelay st then trace st @ [Sleep (typeDelay st * Millisecond)]
                else trace st);
          h4 = snd (TypeAsHuman command Stdout (char_delay cfg) h1) @ [Write Stdout [LF]];
          name = hd (Split command SP);
          args = tl (Split command SP);
          h8 = h4 @ Exec name args Stdout # printError (cmdRun env h4 name args) []
                 @ Write Stdout (promptText (promptDesc st))
                 # (if 0 <s post_delay cfg then [Sleep (post_delay cfg * Millisecond)] else [])
      in if commandList st \<noteq> [] \<and> \<not> no_cls cfg \<and> command \<noteq> last (commandList st)
         then h8 @ Exec (fst (clearCommand env)) (snd (clearCommand env)) Stdout
                # printlnError (cmdRun env h8 (fst (clearCommand env)) (snd (clearCommand env))) []
                @ [Write Stdout (promptText (promptDesc st))]
         else h8)"
proof (cases "0 <s post_delay cfg")
  case True
  show ?thesis
    unfolding iteration_eq Let_def if_P [OF True] PrintPrompt_def ClearScreen_eq fst_conv snd_conv
    by (simp add: printlnError_alt printError_alt)
next
  case False
  show ?thesis
    unfolding iteration_eq Let_def if_not_P [OF False] PrintPrompt_def ClearScreen_eq fst_conv snd_conv
    by (simp add: printlnError_alt printError_alt)
qed

lemma typeDelay_iteration: "typeDelay (snd (iteration env cfg command st)) = typeDelay st"
  by (simp add: iteration_eq Let_def)

lemma trace_foldl_iteration:
  "commandList st \<noteq> [] \<Longrightarrow>
   trace (foldl (\<lambda>st c. snd (iteration env cfg c st)) st cs) =
     foldl (\<lambda>h c.
              let h1 = (if 0 <s typeDelay st then h @ [Sleep (typeDelay st * Millisecond)] else h);
                  h4 = snd (TypeAsHuman c Stdout (char_delay cfg) h1) @ [Write Stdout [LF]];
                  name = hd (Split c SP);
                  args = tl (Split c SP);
                  h8 = h4 @ Exec name args Stdout # printError (cmdRun env h4 name args) []
                         @ Write Stdout (promptText (promptDesc st))
                         # (if 0 <s post_delay cfg then [Sleep (post_delay cfg * Millisecond)]
                            else [])
              in if \<not> no_cls cfg \<and> c \<noteq> last (commandList st)
                 then h8 @ Exec (fst (clearCommand env)) (snd (clearCommand env)) Stdout
                        # printlnError
                            (cmdRun env h8 (fst (clearCommand env)) (snd (clearCommand env))) []
                        @ [Write Stdout (promptText (promptDesc st))]
                 else h8)
       (trace st) cs"
proof (induction cs arbitrary: st)
  case Nil
  show ?case by simp
next
  case (Cons c cs)
  let ?st' = "snd (iteration env cfg c st)"
  have ne: "commandList ?st' \<noteq> []"
    using Cons.prems by (simp add: commandList_iteration)
  show ?case
    unfolding foldl_Cons Cons.IH [OF ne] commandList_iteration promptDesc_iteration
      typeDelay_iteration iteration_trace
    using Cons.prems by (simp add: Let_def split del: if_split cong: if_cong)
qed

lemma iteration_extends:
  "\<exists>rest. trace (snd (iteration env cfg command st)) =
     snd (TypeAsHuman command Stdout (char_delay cfg)
            (if 0 <s typeDelay st then trace st @ [Sleep (typeDelay st * Millisecond)]
             else trace st))
       @ Write Stdout [LF] # rest"
proof (cases "commandList st \<noteq> [] \<and> \<not> no_cls cfg \<and> command \<noteq> last (commandList st)")
  case True
  show ?thesis unfolding iteration_trace Let_def if_P [OF True] by simp
next
  case False
  show ?thesis unfolding iteration_trace Let_def if_not_P [OF False] by simp
qed

lemma promptDesc_playback: "promptDesc (snd (playback env cfg cs st)) = promptDesc st"
proof (induction cs arbitrary: st)
  case Nil
  show ?case by simp
next
  case (Cons c cs)
  obtain r st' where it: "iteration env cfg c st = (r, st')"
    by (cases "iteration env cfg c st") auto
  then have "promptDesc st' = promptDesc st"
    using promptDesc_iteration [of env cfg c st] by simp
  with Cons.IH [of st'] it show ?case
    by (cases r) simp_all
qed

lemma runInput_eq:
  "runInput env cfg input h =
     (Return None,
      foldl (\<lambda>st c. snd (iteration env cfg c st))
        \<lparr>promptDesc = newPrompt cfg,
         commandList = Split (ReplaceAll input [CR, LF] [LF]) LF,
         typeDelay = pre_delay cfg,
         trace = PrintPrompt (newPrompt cfg) Stdout
                   (printlnError (fst (ClearScreen env h)) (snd (ClearScreen env h)))\<rparr>
        (Split (ReplaceAll input [CR, LF] [LF]) LF))"
  by (simp add: runInput_def Let_def case_prod_beta playback_foldl Split_not_Nil)

lemma processes_foldl:
  "processes (trace (foldl (\<lambda>st c. snd (iteration env cfg c st)) st cs)) =
     processes (trace st)
       @ concat (map (\<lambda>c. (hd (Split c SP), tl (Split c SP))
                        # (if commandList st \<noteq> [] \<and> \<not> no_cls cfg \<and> c \<noteq> last (commandList st)
                           then [clearCommand env] else [])) cs)"
proof (induction cs arbitrary: st)
  case Nil
  show ?case by simp
next
  case (Cons c cs)
  show ?case
    unfolding foldl_Cons Cons.IH commandList_iteration processes_iteration
    by simp
qed

lemma processes_runInput:
  "processes (trace (snd (runInput env cfg input h))) =
     processes h @ clearCommand env
       # concat (map (\<lambda>c. (hd (Split c SP), tl (Split c SP))
                        # (if \<not> no_cls cfg \<and> c \<noteq> last (Split (ReplaceAll input [CR, LF] [LF]) LF)
                           then [clearCommand env] else []))
                  (Split (ReplaceAll input [CR, LF] [LF]) LF))"
  by (simp add: runInput_eq processes_foldl processes_PrintPrompt processes_printlnError
      ClearScreen_eq processes_append Split_not_Nil)

lemma exec_error_printed:
  "\<exists>pre post. trace (snd (iteration env cfg command st)) =
       pre @ Exec (hd (Split command SP)) (tl (Split command SP)) Stdout
         # printError (cmdRun env pre (hd (Split command SP)) (tl (Split command SP))) [] @ post"
proof -
  let ?h4 = "snd (TypeAsHuman command Stdout (char_delay cfg)
                (if 0 <s typeDelay st then trace st @ [Sleep (typeDelay st * Millisecond)]
                 else trace st)) @ [Write Stdout [LF]]"
  have "\<exists>post. trace (snd (iteration env cfg command st)) =
       ?h4 @ Exec (hd (Split command SP)) (tl (Split command SP)) Stdout
         # printError (cmdRun env ?h4 (hd (Split command SP)) (tl (Split command SP))) [] @ post"
  proof (cases "commandList st \<noteq> [] \<and> \<not> no_cls cfg \<and> command \<noteq> last (commandList st)")
    case True
    show ?thesis unfolding iteration_trace Let_def if_P [OF True]
      by (simp split del: if_split)
  next
    case False
    show ?thesis unfolding iteration_trace Let_def if_not_P [OF False]
      by (simp split del: if_split)
  qed
  then show ?thesis by (rule exI)
qed

lemma clear_error_printed:
  assumes "commandList st \<noteq> [] \<and> \<not> no_cls cfg \<and> command \<noteq> last (commandList st)"
  shows "\<exists>pre. trace (snd (iteration env cfg command st)) =
       pre @ Exec (fst (clearCommand env)) (snd (clearCommand env)) Stdout
         # printlnError (cmdRun env pre (fst (clearCommand env)) (snd (clearCommand env))) []
         @ [Write Stdout (promptText (promptDesc st))]"
  unfolding iteration_trace Let_def if_P [OF assms]
  by (rule exI) (rule refl)

section \<open>Typing a command\<close>

text \<open>
  C8. With a per-character delay of 0, \<open>TypeAsHuman\<close> writes the whole string to
  the output in a single write, writes no colour escape sequence and does not
  sleep, and returns nil.
\<close>

theorem TypeAsHuman_zero_delay_single_write:
  "TypeAsHuman str out 0 h = (None, h @ [Write out str])"
  by (simp add: TypeAsHuman_def)

text \<open>
  C2, amended. For every delay other than 0, \<open>TypeAsHuman\<close> first writes the
  highlight colour to standard output; then, for each character of the string in
  order, it writes the colour reset to standard output when the character is a
  space, writes the character to the output, and sleeps for the delay; last it
  writes the colour reset. So the highlight covers the first word. The characters
  are the UTF-8 sequences \<open>range\<close> decodes: they make up the string again unless a
  byte was invalid, and for an ASCII string they are its bytes. The delay is
  \<open>delayMs\<close> milliseconds as a 64-bit \<open>time.Duration\<close>.
\<close>

theorem TypeAsHuman_types_each_character:
  "delayMs \<noteq> 0 \<Longrightarrow>
   TypeAsHuman str out delayMs h =
     (None, h @ [Write Stdout (ESC # ''[38;5;229m'')]
              @ concat (map (\<lambda>char. (if char = '' '' then [Write Stdout (ESC # ''[0m'')] else [])
                                      @ [Write out char, Sleep (delayMs * Millisecond)])
                          (rangeStr str))
              @ [Write Stdout (ESC # ''[0m'')])
   \<and> (RuneError \<notin> set (rangeStr str) \<longrightarrow> concat (rangeStr str) = str)
   \<and> (list_all (\<lambda>c. (of_char c :: nat) < 0x80) str \<longrightarrow> rangeStr str = map (\<lambda>c. [c]) str)"
  using TypeAsHuman_typed [of delayMs str out h] rangeStr_valid [of str] rangeStr_ascii [of str]
  by (simp add: SP_def)

theorem TypeAsHuman_types_each_character_witness:
  "(75 :: 64 word) \<noteq> 0
   \<and> TypeAsHuman ''a b'' (Writer 0) 75 [] =
       (None, [Write Stdout (ESC # ''[38;5;229m''),
               Write (Writer 0) ''a'', Sleep 75000000,
               Write Stdout (ESC # ''[0m''), Write (Writer 0) '' '', Sleep 75000000,
               Write (Writer 0) ''b'', Sleep 75000000,
               Write Stdout (ESC # ''[0m'')])
   \<and> RuneError \<notin> set (rangeStr ''a b'')
   \<and> concat (rangeStr ''a b'') = ''a b''
   \<and> list_all (\<lambda>c. (of_char c :: nat) < 0x80) ''a b''
   \<and> rangeStr ''a b'' = [''a'', '' '', ''b'']"
  using TypeAsHuman_types_each_character [of 75 "''a b''" "Writer 0" "[]"]
  by (simp add: rangeStr_ascii_Cons rangeStr_Nil RuneError_def Millisecond_def)

text \<open>
  C2 as stated, for every delay, fails at delay 0: the string goes out in one
  write, with no colour and no sleep.
\<close>

theorem TypeAsHuman_zero_delay_counterexample:
  "TypeAsHuman ''a b'' (Writer 0) 0 [] = (None, [Write (Writer 0) ''a b''])
   \<and> TypeAsHuman ''a b'' (Writer 0) 0 [] \<noteq>
       (None, [Write Stdout (ESC # ''[38;5;229m'')]
              @ concat (map (\<lambda>char. (if char = '' '' then [Write Stdout (ESC # ''[0m'')] else [])
                                      @ [Write (Writer 0) char, Sleep (0 * Millisecond)])
                          (rangeStr ''a b''))
              @ [Write Stdout (ESC # ''[0m'')])"
  by (simp add: TypeAsHuman_def)

text \<open>
  C9. \<open>TypeAsHuman\<close> returns nil whatever the string, the writer and the delay. So
  the \<open>if err != nil\<close> after the call in the playback loop prints nothing: in every
  iteration the newline of \<open>fmt.Println()\<close> comes right after the typed command.
\<close>

theorem TypeAsHuman_returns_nil:
  "fst (TypeAsHuman str out delayMs h) = None
   \<and> printError (fst (TypeAsHuman str out delayMs h)) h' = h'
   \<and> (\<exists>rest. trace (snd (iteration env cfg command st)) =
         snd (TypeAsHuman command Stdout (char_delay cfg)
               (if 0 <s typeDelay st then trace st @ [Sleep (typeDelay st * Millisecond)]
                else trace st))
           @ Write Stdout [LF] # rest)"
  using iteration_extends [of env cfg command st]
  by (simp add: TypeAsHuman_nil printError_None split del: if_split)

section \<open>Printing the prompt\<close>

text \<open>
  C3. \<open>PrintPrompt\<close> writes one string that depends on the descriptor alone:
  \<open>PS\<close>, a space, the path and \<open>> \<close> for the PowerShell style; the path and \<open>> \<close> for
  the Cmd style; and for the Bash style the username, an at sign, the hostname, a
  colon, the path and \<open>$ \<close>, with the colour escapes around its parts. Equal descriptors give equal output, since the output is a function of
  the descriptor. The descriptor \<open>RunE\<close> builds always has one of the three styles.
\<close>

theorem PrintPrompt_templates:
  "PrintPrompt p out h = h @ [Write out (promptText p)]
   \<and> promptText \<lparr>Username = u, Hostname = n, Path = d, Shell = PS\<rparr> = ''PS '' @ d @ ''> ''
   \<and> promptText \<lparr>Username = u, Hostname = n, Path = d, Shell = Cmd\<rparr> = d @ ''> ''
   \<and> promptText \<lparr>Username = u, Hostname = n, Path = d, Shell = Bash\<rparr>
       = ESC # ''[38;5;82m'' @ u @ ''@'' @ n @ ESC # ''[0m'' @ '':''
           @ ESC # ''[38;5;32m'' @ d @ ESC # ''[0m'' @ ''$ ''
   \<and> Shell (newPrompt cfg) \<in> {PS, Cmd, Bash}"
  by (simp add: PrintPrompt_def promptText_def PS_def Cmd_def Bash_def newPrompt_def
      shellOptionOf_def Let_def)

section \<open>Executing a command\<close>

text \<open>
  C4. \<open>ExecuteCommand\<close> splits the command at every single space: the first field
  is the program, the other fields are its arguments in order. The fields joined
  by single spaces are the command again and no field holds a space, so quotes and
  backslashes are ordinary bytes. It starts that program and returns what
  \<open>cmd.Run()\<close> returned; it never panics.
\<close>

theorem ExecuteCommand_splits_on_spaces:
  "\<exists>name args.
     Split command SP = name # args
     \<and> ExecuteCommand env command out h
         = (Return (cmdRun env h name args), h @ [Exec name args out])
     \<and> Join (name # args) '' '' = command
     \<and> SP \<notin> set (concat (name # args))
     \<and> length args = count_list command SP"
proof -
  obtain name args where split: "Split command SP = name # args"
    using Split_not_Nil [of command SP] by (cases "Split command SP") auto
  have "ExecuteCommand env command out h
          = (Return (cmdRun env h name args), h @ [Exec name args out])"
    using split by (simp add: ExecuteCommand_eq)
  moreover have "Join (name # args) '' '' = command"
    using Join_Split [of command SP] split by (simp add: SP_def)
  moreover have "SP \<notin> set (concat (name # args))"
    using Split_no_sep [of _ command SP] split by auto
  moreover have "length args = count_list command SP"
    using length_Split [of command SP] split by simp
  ultimately show ?thesis using split by blast
qed

section \<open>The playback loop\<close>

text \<open>
  C1. Each iteration sleeps for the pre-delay when it is positive, types the
  command, executes it, prints the prompt, sleeps for the post-delay when it is
  positive and, when screen clearing is on, clears the screen and prints the
  prompt again, except after the last command of the list. The loop decides
  "last" by comparing the text of the command with the text of the last line, so
  on the input of the three lines \<open>ls\<close>, \<open>pwd\<close>, \<open>ls\<close> the screen is not cleared after
  the first command either: in the trace below nothing stands between the prompt
  after the first \<open>ls\<close> and the typing of \<open>pwd\<close>.
\<close>

theorem clear_skipped_after_duplicate_of_last:
  "runInput demoEnv demoConfig (''ls'' @ [LF] @ ''pwd'' @ [LF] @ ''ls'') [] =
     (Return None,
      \<lparr>promptDesc = \<lparr>Username = ''u'', Hostname = ''h'', Path = ''D:'', Shell = Cmd\<rparr>,
       commandList = [''ls'', ''pwd'', ''ls''],
       typeDelay = 0,
       trace =
        [Exec ''sh'' [''-c'', ''clear''] Stdout, Write Stdout ''D:> '',
         Write Stdout ''ls'', Write Stdout [LF], Exec ''ls'' [] Stdout, Write Stdout ''D:> '',
         Write Stdout ''pwd'', Write Stdout [LF], Exec ''pwd'' [] Stdout, Write Stdout ''D:> '',
         Exec ''sh'' [''-c'', ''clear''] Stdout, Write Stdout ''D:> '',
         Write Stdout ''ls'', Write Stdout [LF], Exec ''ls'' [] Stdout, Write Stdout ''D:> '']\<rparr>)"
  by code_simp

text \<open>
  C5. The playback loop runs over exactly the fields of the input text split at
  newlines, after every carriage return and newline pair has been replaced by a
  newline: the run is the fold of the loop body over that list, from the first
  field to the last, and the commands it executes are those fields, each split
  into program and arguments, in order and each once (with the clearing of the
  screen between them when that is on). The normalisation reads the text from the
  left, turns a carriage return followed by a newline into the newline and keeps
  every other byte. Joining the fields with newlines gives the normalised text
  back, no field holds a newline, and there is one field more than there are
  newlines. \<open>RunE\<close> is that run whenever it has acquired an input text.
\<close>

theorem commands_are_the_lines_of_the_input:
  "runInput env cfg input h =
     (Return None,
      foldl (\<lambda>st c. snd (iteration env cfg c st))
        \<lparr>promptDesc = newPrompt cfg,
         commandList = Split (ReplaceAll input [CR, LF] [LF]) LF,
         typeDelay = pre_delay cfg,
         trace = PrintPrompt (newPrompt cfg) Stdout
                   (printlnError (fst (ClearScreen env h)) (snd (ClearScreen env h)))\<rparr>
        (Split (ReplaceAll input [CR, LF] [LF]) LF))
   \<and> processes (trace (snd (runInput env cfg input h))) =
        processes h @ clearCommand env
          # concat (map (\<lambda>c. (hd (Split c SP), tl (Split c SP))
                           # (if \<not> no_cls cfg
                                  \<and> c \<noteq> last (Split (ReplaceAll input [CR, LF] [LF]) LF)
                              then [clearCommand env] else []))
                     (Split (ReplaceAll input [CR, LF] [LF]) LF))
   \<and> (no_cls cfg \<longrightarrow>
        processes (trace (snd (runInput env cfg input h))) =
          processes h @ clearCommand env
            # map (\<lambda>c. (hd (Split c SP), tl (Split c SP)))
                (Split (ReplaceAll input [CR, LF] [LF]) LF))
   \<and> ReplaceAll [] [CR, LF] [LF] = []
   \<and> ReplaceAll (c # cs) [CR, LF] [LF] =
        (if c = CR \<and> take 1 cs = [LF] then LF # ReplaceAll (drop 1 cs) [CR, LF] [LF]
         else c # ReplaceAll cs [CR, LF] [LF])
   \<and> Join (Split (ReplaceAll input [CR, LF] [LF]) LF) [LF] = ReplaceAll input [CR, LF] [LF]
   \<and> LF \<notin> set (concat (Split (ReplaceAll input [CR, LF] [LF]) LF))
   \<and> length (Split (ReplaceAll input [CR, LF] [LF]) LF)
       = Suc (count_list (ReplaceAll input [CR, LF] [LF]) LF)
   \<and> (acquireInput env cfg args = Input input \<longrightarrow>
        RunE env cfg args h = (Return None, trace (snd (runInput env cfg input h))))"
proof -
  have run: "acquireInput env cfg args = Input input \<longrightarrow>
        RunE env cfg args h = (Return None, trace (snd (runInput env cfg input h)))"
    by (simp add: RunE_def runInput_eq)
  have nosep: "LF \<notin> set (concat (Split (ReplaceAll input [CR, LF] [LF]) LF))"
    using Split_no_sep [of _ "ReplaceAll input [CR, LF] [LF]" LF] by auto
  have quiet: "no_cls cfg \<longrightarrow>
        processes (trace (snd (runInput env cfg input h))) =
          processes h @ clearCommand env
            # map (\<lambda>c. (hd (Split c SP), tl (Split c SP)))
                (Split (ReplaceAll input [CR, LF] [LF]) LF)"
  proof
    assume q: "no_cls cfg"
    have "concat (map (\<lambda>c. [f c]) xs) = map f xs" for f :: "string \<Rightarrow> string \<times> string list" and xs
      by (induction xs) simp_all
    with q show "processes (trace (snd (runInput env cfg input h))) =
          processes h @ clearCommand env
            # map (\<lambda>c. (hd (Split c SP), tl (Split c SP)))
                (Split (ReplaceAll input [CR, LF] [LF]) LF)"
      by (simp add: processes_runInput)
  qed
  from runInput_eq [of env cfg input h] processes_runInput [of env cfg input h] quiet
    ReplaceAll_CRLF_Nil ReplaceAll_CRLF_step [of c cs]
    Join_Split [of "ReplaceAll input [CR, LF] [LF]" LF] nosep
    length_Split [of "ReplaceAll input [CR, LF] [LF]" LF] run
  show ?thesis by (intro conjI)
qed

theorem commands_are_the_lines_of_the_input_witness:
  "acquireInput pipeEnv quietConfig []
     = Input [CHR ''l'', CHR ''s'', CHR '' '', CHR ''-'', CHR ''l'', CR, LF,
              CHR ''p'', CHR ''w'', CHR ''d'', LF]
   \<and> no_cls quietConfig
   \<and> ReplaceAll [CHR ''l'', CHR ''s'', CHR '' '', CHR ''-'', CHR ''l'', CR, LF,
                  CHR ''p'', CHR ''w'', CHR ''d'', LF] [CR, LF] [LF]
       = [CHR ''l'', CHR ''s'', CHR '' '', CHR ''-'', CHR ''l'', LF, CHR ''p'', CHR ''w'', CHR ''d'', LF]
   \<and> Split (ReplaceAll [CHR ''l'', CHR ''s'', CHR '' '', CHR ''-'', CHR ''l'', CR, LF,
                         CHR ''p'', CHR ''w'', CHR ''d'', LF] [CR, LF] [LF]) LF
       = [''ls -l'', ''pwd'', []]
   \<and> fst (RunE pipeEnv quietConfig [] []) = Return None
   \<and> processes (snd (RunE pipeEnv quietConfig [] []))
       = [(''sh'', [''-c'', ''clear'']), (''ls'', [''-l'']), (''pwd'', []), ([], [])]"
proof -
  let ?in = "[CHR ''l'', CHR ''s'', CHR '' '', CHR ''-'', CHR ''l'', CR, LF,
              CHR ''p'', CHR ''w'', CHR ''d'', LF]"
  have a: "acquireInput pipeEnv quietConfig [] = Input ?in"
    by code_simp
  have q: "no_cls quietConfig"
    by (simp add: quietConfig_def)
  have r: "ReplaceAll ?in [CR, LF] [LF]
       = [CHR ''l'', CHR ''s'', CHR '' '', CHR ''-'', CHR ''l'', LF, CHR ''p'', CHR ''w'', CHR ''d'', LF]"
    by code_simp
  have s: "Split (ReplaceAll ?in [CR, LF] [LF]) LF = [''ls -l'', ''pwd'', []]"
    by code_simp
  have c: "clearCommand pipeEnv = (''sh'', [''-c'', ''clear''])"
    by code_simp
  have m: "map (\<lambda>c. (hd (Split c SP), tl (Split c SP))) [''ls -l'', ''pwd'', []]
             = [(''ls'', [''-l'']), (''pwd'', []), ([], [])]"
    by code_simp
  note t = commands_are_the_lines_of_the_input [of pipeEnv quietConfig ?in "[]" _ _ "[]"]
  from t a have run: "RunE pipeEnv quietConfig [] []
      = (Return None, trace (snd (runInput pipeEnv quietConfig ?in [])))"
    by blast
  from t q have "processes (trace (snd (runInput pipeEnv quietConfig ?in []))) =
          processes [] @ clearCommand pipeEnv
            # map (\<lambda>c. (hd (Split c SP), tl (Split c SP))) (Split (ReplaceAll ?in [CR, LF] [LF]) LF)"
    by blast
  then have p: "processes (snd (RunE pipeEnv quietConfig [] []))
       = [(''sh'', [''-c'', ''clear'']), (''ls'', [''-l'']), (''pwd'', []), ([], [])]"
    unfolding run s c m by simp
  have f: "fst (RunE pipeEnv quietConfig [] []) = Return None"
    unfolding run by simp
  from a q r s f p show ?thesis by (intro conjI)
qed

text \<open>
  C6. Whatever the commands and the screen clearing return, the run ends normally
  and the loop is the fold of its body over all the commands; the processes
  started are the same for every outcome: the first clearing of the screen, then
  each command in order, each followed by the clearing of the screen where the
  loop clears. In an iteration the error of the command is printed right after the
  command ran, as \<open>Error: \<close> and the message, and the error of the screen clearing
  right after it ran, as the message, before the prompt.
\<close>

theorem errors_never_stop_the_loop:
  "fst (runInput env cfg input h) = Return None
   \<and> (commandList st \<noteq> [] \<longrightarrow>
        playback env cfg cs st
          = (Return (), foldl (\<lambda>st c. snd (iteration env cfg c st)) st cs))
   \<and> processes (trace (snd (runInput env cfg input h))) =
        processes h @ clearCommand env
          # concat (map (\<lambda>c. (hd (Split c SP), tl (Split c SP))
                           # (if \<not> no_cls cfg
                                  \<and> c \<noteq> last (Split (ReplaceAll input [CR, LF] [LF]) LF)
                              then [clearCommand env] else []))
                     (Split (ReplaceAll input [CR, LF] [LF]) LF))
   \<and> (\<exists>pre post. trace (snd (iteration env cfg command st)) =
         pre @ Exec (hd (Split command SP)) (tl (Split command SP)) Stdout
           # printError (cmdRun env pre (hd (Split command SP)) (tl (Split command SP))) []
           @ post)
   \<and> printError (Some e) [] = [Write Stdout (''Error: '' @ e @ [LF])]
   \<and> (commandList st \<noteq> [] \<and> \<not> no_cls cfg \<and> command \<noteq> last (commandList st) \<longrightarrow>
        (\<exists>pre. trace (snd (iteration env cfg command st)) =
           pre @ Exec (fst (clearCommand env)) (snd (clearCommand env)) Stdout
             # printlnError (cmdRun env pre (fst (clearCommand env)) (snd (clearCommand env))) []
             @ [Write Stdout (promptText (promptDesc st))]))
   \<and> printlnError (Some e) [] = [Write Stdout (e @ [LF])]"
proof -
  have a: "fst (runInput env cfg input h) = Return None"
    by (simp add: runInput_eq)
  have b: "commandList st \<noteq> [] \<longrightarrow>
        playback env cfg cs st
          = (Return (), foldl (\<lambda>st c. snd (iteration env cfg c st)) st cs)"
    by (simp add: playback_foldl)
  have c: "printError (Some e) [] = [Write Stdout (''Error: '' @ e @ [LF])]"
    by (simp add: printError_def)
  have d: "printlnError (Some e) [] = [Write Stdout (e @ [LF])]"
    by (simp add: printlnError_def)
  note e = processes_runInput [of env cfg input h]
  note f = exec_error_printed [of env cfg command st]
  have g: "commandList st \<noteq> [] \<and> \<not> no_cls cfg \<and> command \<noteq> last (commandList st) \<longrightarrow>
        (\<exists>pre. trace (snd (iteration env cfg command st)) =
           pre @ Exec (fst (clearCommand env)) (snd (clearCommand env)) Stdout
             # printlnError (cmdRun env pre (fst (clearCommand env)) (snd (clearCommand env))) []
             @ [Write Stdout (promptText (promptDesc st))])"
    using clear_error_printed [of st cfg command env] by blast
  from a b e f c g d show ?thesis by (intro conjI)
qed

theorem errors_never_stop_the_loop_witness:
  "commandList demoFrame \<noteq> []
   \<and> \<not> no_cls demoConfig
   \<and> ''ls'' \<noteq> last (commandList demoFrame)
   \<and> playback failingEnv demoConfig [''ls'', ''pwd''] demoFrame
       = (Return (),
          foldl (\<lambda>st c. snd (iteration failingEnv demoConfig c st)) demoFrame [''ls'', ''pwd''])
   \<and> (\<exists>pre. trace (snd (iteration failingEnv demoConfig ''ls'' demoFrame)) =
         pre @ Exec ''sh'' [''-c'', ''clear''] Stdout
           # [Write Stdout (''exit status 1'' @ [LF]), Write Stdout ''D:> ''])
   \<and> processes (trace (snd (runInput failingEnv demoConfig (''ls'' @ [LF] @ ''pwd'') [])))
       = [(''sh'', [''-c'', ''clear'']), (''ls'', []), (''sh'', [''-c'', ''clear'']), (''pwd'', [])]"
proof -
  have h1: "commandList demoFrame \<noteq> []" by (simp add: demoFrame_def)
  have h2: "\<not> no_cls demoConfig" by (simp add: demoConfig_def)
  have h3: "''ls'' \<noteq> last (commandList demoFrame)" by (simp add: demoFrame_def)
  have p: "processes (trace (snd (runInput failingEnv demoConfig (''ls'' @ [LF] @ ''pwd'') [])))
       = [(''sh'', [''-c'', ''clear'']), (''ls'', []), (''sh'', [''-c'', ''clear'']), (''pwd'', [])]"
    by code_simp
  have q: "promptText (promptDesc demoFrame) = ''D:> ''" by code_simp
  have c: "clearCommand failingEnv = (''sh'', [''-c'', ''clear''])" by code_simp
  have r: "cmdRun failingEnv pre name args = Some ''exit status 1''" for pre name args
    by (simp add: failingEnv_def)
  from errors_never_stop_the_loop
         [of failingEnv demoConfig "''ls'' @ [LF] @ ''pwd''" "[]" demoFrame "[''ls'', ''pwd'']" "''ls''" "''exit status 1''"]
       h1 h2 h3 p
  show ?thesis
    by (simp add: q c r printlnError_def)
qed

text \<open>
  C7. The prompt descriptor of the frame is the same after an iteration, after
  any number of iterations and at the end of the run as it was built from the
  flags; the operations of package \<open>cli\<close> only extend the trace. Every prompt
  written during a run is rendered from that one descriptor: the trace of the run
  is the first prompt, and then for each command the events of its iteration, in
  which the prompt after the command and the prompt after the clearing of the
  screen are both the text of the descriptor built from the flags.
\<close>

theorem every_prompt_is_rendered_from_the_descriptor:
  "promptDesc (snd (iteration env cfg command st)) = promptDesc st
   \<and> promptDesc (snd (playback env cfg cs st)) = promptDesc st
   \<and> promptDesc (snd (runInput env cfg input h)) = newPrompt cfg
   \<and> trace (snd (runInput env cfg input h)) =
       foldl (\<lambda>h c.
                let h1 = (if 0 <s pre_delay cfg then h @ [Sleep (pre_delay cfg * Millisecond)]
                          else h);
                    h4 = snd (TypeAsHuman c Stdout (char_delay cfg) h1) @ [Write Stdout [LF]];
                    name = hd (Split c SP);
                    args = tl (Split c SP);
                    h8 = h4 @ Exec name args Stdout # printError (cmdRun env h4 name args) []
                           @ Write Stdout (promptText (newPrompt cfg))
                           # (if 0 <s post_delay cfg then [Sleep (post_delay cfg * Millisecond)]
                              else [])
                in if \<not> no_cls cfg \<and> c \<noteq> last (Split (ReplaceAll input [CR, LF] [LF]) LF)
                   then h8 @ Exec (fst (clearCommand env)) (snd (clearCommand env)) Stdout
                          # printlnError
                              (cmdRun env h8 (fst (clearCommand env)) (snd (clearCommand env))) []
                          @ [Write Stdout (promptText (newPrompt cfg))]
                   else h8)
         (printlnError (fst (ClearScreen env h)) (snd (ClearScreen env h))
            @ [Write Stdout (promptText (newPrompt cfg))])
         (Split (ReplaceAll input [CR, LF] [LF]) LF)"
proof -
  have "promptDesc (snd (runInput env cfg input h)) = newPrompt cfg"
    by (simp add: runInput_def Let_def case_prod_beta promptDesc_playback
        split: prod.splits outcome.splits)
  moreover note promptDesc_iteration [of env cfg command st] promptDesc_playback [of env cfg cs st]
  moreover have "trace (snd (runInput env cfg input h)) =
       foldl (\<lambda>h c.
                let h1 = (if 0 <s pre_delay cfg then h @ [Sleep (pre_delay cfg * Millisecond)]
                          else h);
                    h4 = snd (TypeAsHuman c Stdout (char_delay cfg) h1) @ [Write Stdout [LF]];
                    name = hd (Split c SP);
                    args = tl (Split c SP);
                    h8 = h4 @ Exec name args Stdout # printError (cmdRun env h4 name args) []
                           @ Write Stdout (promptText (newPrompt cfg))
                           # (if 0 <s post_delay cfg then [Sleep (post_delay cfg * Millisecond)]
                              else [])
                in if \<not> no_cls cfg \<and> c \<noteq> last (Split (ReplaceAll input [CR, LF] [LF]) LF)
                   then h8 @ Exec (fst (clearCommand env)) (snd (clearCommand env)) Stdout
                          # printlnError
                              (cmdRun env h8 (fst (clearCommand env)) (snd (clearCommand env))) []
                          @ [Write Stdout (promptText (newPrompt cfg))]
                   else h8)
         (printlnError (fst (ClearScreen env h)) (snd (ClearScreen env h))
            @ [Write Stdout (promptText (newPrompt cfg))])
         (Split (ReplaceAll input [CR, LF] [LF]) LF)"
  proof -
    let ?st0 = "\<lparr>promptDesc = newPrompt cfg,
                 commandList = Split (ReplaceAll input [CR, LF] [LF]) LF,
                 typeDelay = pre_delay cfg,
                 trace = PrintPrompt (newPrompt cfg) Stdout
                           (printlnError (fst (ClearScreen env h)) (snd (ClearScreen env h)))\<rparr>"
    have ne: "commandList ?st0 \<noteq> []"
      by (simp add: Split_not_Nil)
    from trace_foldl_iteration [OF ne, of env cfg "Split (ReplaceAll input [CR, LF] [LF]) LF"]
    show ?thesis
      unfolding runInput_eq snd_conv
      by (simp only: frame.select_convs PrintPrompt_def)
  qed
  ultimately show ?thesis by (intro conjI)
qed

section \<open>Reading the input\<close>

text \<open>
  C10. When \<open>ProcessFile\<close> or \<open>ProcessInteractiveInput\<close> succeeds, the text it returns
  is the lines of the source joined by newlines with every trailing newline
  removed. It is empty or does not end in a newline, so unless it is empty the
  last command of the list is not empty. Newlines added at the end of the source
  change nothing.
\<close>

theorem input_has_no_trailing_newline:
  "(ProcessFile env f = Inr s \<longrightarrow>
      (\<exists>rd. openFile env f = Inr rd
         \<and> s = TrimRight (Join (scanTokens (data rd)) [LF]) [LF])
      \<and> (s = [] \<or> last s \<noteq> LF)
      \<and> (s = [] \<or> last (Split (ReplaceAll s [CR, LF] [LF]) LF) \<noteq> []))
   \<and> (fst (ProcessInteractiveInput env h) = Inr s \<longrightarrow>
      s = TrimRight (Join (scanTokens (data (stdin env))) [LF]) [LF]
      \<and> (s = [] \<or> last s \<noteq> LF)
      \<and> (s = [] \<or> last (Split (ReplaceAll s [CR, LF] [LF]) LF) \<noteq> []))
   \<and> scanInput (r\<lparr>data := data r @ replicate k LF\<rparr>) = scanInput r"
proof -
  have a: "ProcessFile env f = Inr s \<longrightarrow>
      (\<exists>rd. openFile env f = Inr rd
         \<and> s = TrimRight (Join (scanTokens (data rd)) [LF]) [LF])
      \<and> (s = [] \<or> last s \<noteq> LF)
      \<and> (s = [] \<or> last (Split (ReplaceAll s [CR, LF] [LF]) LF) \<noteq> [])"
  proof
    assume pf: "ProcessFile env f = Inr s"
    then obtain rd where rd: "openFile env f = Inr rd" "scanInput rd = Inr s"
      by (auto simp: ProcessFile_def split: sum.splits)
    from scanInput_Inr [OF rd(2)] rd(1) show
      "(\<exists>rd. openFile env f = Inr rd
         \<and> s = TrimRight (Join (scanTokens (data rd)) [LF]) [LF])
      \<and> (s = [] \<or> last s \<noteq> LF)
      \<and> (s = [] \<or> last (Split (ReplaceAll s [CR, LF] [LF]) LF) \<noteq> [])"
      by blast
  qed
  have b: "fst (ProcessInteractiveInput env h) = Inr s \<longrightarrow>
      s = TrimRight (Join (scanTokens (data (stdin env))) [LF]) [LF]
      \<and> (s = [] \<or> last s \<noteq> LF)
      \<and> (s = [] \<or> last (Split (ReplaceAll s [CR, LF] [LF]) LF) \<noteq> [])"
    using scanInput_Inr [of "stdin env" s]
    by (simp add: ProcessInteractiveInput_def Let_def)
  from a b scanInput_trailing_newlines [of r k] show ?thesis by (intro conjI)
qed

theorem input_has_no_trailing_newline_witness:
  "ProcessFile fileEnv ''commands.txt''
     = Inr [CHR ''l'', CHR ''s'', LF, LF, CHR ''p'', CHR ''w'', CHR ''d'']
   \<and> fst (ProcessInteractiveInput fileEnv [])
     = Inr [CHR ''l'', CHR ''s'', LF, LF, CHR ''p'', CHR ''w'', CHR ''d'']
   \<and> (\<exists>rd. openFile fileEnv ''commands.txt'' = Inr rd
         \<and> [CHR ''l'', CHR ''s'', LF, LF, CHR ''p'', CHR ''w'', CHR ''d'']
             = TrimRight (Join (scanTokens (data rd)) [LF]) [LF])
   \<and> last (Split (ReplaceAll [CHR ''l'', CHR ''s'', LF, LF, CHR ''p'', CHR ''w'', CHR ''d'']
                    [CR, LF] [LF]) LF) \<noteq> []
   \<and> Split (ReplaceAll [CHR ''l'', CHR ''s'', LF, LF, CHR ''p'', CHR ''w'', CHR ''d'']
              [CR, LF] [LF]) LF = [''ls'', [], ''pwd'']"
proof -
  let ?s = "[CHR ''l'', CHR ''s'', LF, LF, CHR ''p'', CHR ''w'', CHR ''d'']"
  have s1: "Split [CHR ''l'', CHR ''s'', CR, LF, LF, CHR ''p'', CHR ''w'', CHR ''d'', LF, LF] LF
              = [[CHR ''l'', CHR ''s'', CR], [], ''pwd'', [], []]"
    by code_simp
  have s2: "scanTokens [CHR ''l'', CHR ''s'', CR, LF, LF, CHR ''p'', CHR ''w'', CHR ''d'', LF, LF]
              = [''ls'', [], ''pwd'', []]"
    by code_simp
  have s3: "collectLines [''ls'', [], ''pwd'', []] = ?s"
    by code_simp
  have sa: "scanInput \<lparr>data = [CHR ''l'', CHR ''s'', CR, LF, LF, CHR ''p'', CHR ''w'', CHR ''d'', LF, LF],
                        readErr = None\<rparr> = Inr ?s"
    by (simp add: scanInput_def scanAll_def s1 s2 s3 MaxScanTokenSize_def)
  have h1: "ProcessFile fileEnv ''commands.txt'' = Inr ?s"
    by (simp add: ProcessFile_def fileEnv_def sa)
  have h2: "fst (ProcessInteractiveInput fileEnv []) = Inr ?s"
    by (simp add: ProcessInteractiveInput_def fileEnv_def sa Let_def)
  have h3: "Split (ReplaceAll ?s [CR, LF] [LF]) LF = [''ls'', [], ''pwd'']"
    by code_simp
  have ne: "?s \<noteq> []"
    by simp
  note t = input_has_no_trailing_newline
             [of fileEnv "''commands.txt''" ?s "[]" "stdin fileEnv" 0, THEN conjunct1, rule_format, OF h1]
  from t have a: "\<exists>rd. openFile fileEnv ''commands.txt'' = Inr rd
         \<and> ?s = TrimRight (Join (scanTokens (data rd)) [LF]) [LF]"
    by (rule conjunct1)
  from t ne have c: "last (Split (ReplaceAll ?s [CR, LF] [LF]) LF) \<noteq> []"
    by simp
  from h1 h2 a c h3 show ?thesis by (intro conjI)
qed

end
